theory Spec2Isabelle
  imports Main "HOL-Library.AList" "HOL-Library.Word"
begin

section \<open>Strings and keys (signaling.js)\<close>

text \<open>
  JavaScript strings are modelled as \<open>string\<close>, one \<open>char\<close> per code unit.
  A value that is either a string or \<open>null\<close> (\<open>this.roomId\<close>, \<open>this.peerId\<close>) is a
  \<open>string option\<close>; \<open>tmpl\<close> is what a template literal makes of it.
\<close>

definition tmpl :: "string option \<Rightarrow> string" where
  "tmpl v = (case v of None \<Rightarrow> ''null'' | Some s \<Rightarrow> s)"

text \<open>The character class \<^verbatim>\<open>[.#$\[\]/]\<close> of \<open>sanitizeKey\<close>.\<close>

definition reserved :: "char list" where
  "reserved = [CHR ''.'', CHR ''#'', CHR ''$'', CHR ''['', CHR '']'', CHR ''/'']"

text \<open>\<^verbatim>\<open>raw.replace(/[.#$\[\]/]/g, '-')\<close>: every match is replaced, one character each.\<close>

definition sanitizeKey :: "string \<Rightarrow> string" where
  "sanitizeKey raw = map (\<lambda>c. if c \<in> set reserved then CHR ''-'' else c) raw"

definition buildOfferKey :: "string \<Rightarrow> string \<Rightarrow> string" where
  "buildOfferKey from_id to_id = sanitizeKey (from_id @ ''__'' @ to_id)"

definition buildOfferId :: "string \<Rightarrow> string \<Rightarrow> string" where
  "buildOfferId from_id to_id = buildOfferKey from_id to_id"

text \<open>\<open>Array.prototype.join\<close> on an array of strings.\<close>

fun js_join :: "string \<Rightarrow> string list \<Rightarrow> string" where
  "js_join sep [] = []"
| "js_join sep [x] = x"
| "js_join sep (x # y # ys) = x @ sep @ js_join sep (y # ys)"

definition alphabet :: string where
  "alphabet = ''abcdefghjkmnpqrstuvwxyz23456789''"

text \<open>
  \<open>createRandomRoomId\<close>, with the bytes that \<open>crypto.getRandomValues\<close> wrote into the
  \<open>Uint8Array(8)\<close> as the argument. \<open>slice(a, b)\<close> is \<open>take (b - a) \<circ> drop a\<close>.
\<close>

definition createRandomRoomId :: "8 word list \<Rightarrow> string" where
  "createRandomRoomId randomBytes =
     (let chars = map (\<lambda>byte. [alphabet ! (unat byte mod length alphabet)]) randomBytes;
          segments = [js_join [] (take 4 chars), js_join [] (take 4 (drop 4 chars))]
      in js_join ''-'' segments)"

text \<open>
  The identifiers that \<open>PeerMeshManager.join\<close> mints:
  \<^verbatim>\<open>`peer-${crypto.randomUUID().slice(0, 8)}`\<close>, that is \<open>peer-\<close> and eight lower-case
  hexadecimal digits.
\<close>

definition hexdigits :: "char list" where
  "hexdigits = ''0123456789abcdef''"

definition peer_id_format :: "string \<Rightarrow> bool" where
  "peer_id_format p =
     (length p = 13 \<and> take 5 p = ''peer-'' \<and> list_all (\<lambda>c. c \<in> set hexdigits) (drop 5 p))"

text \<open>
  \<open>String.prototype.trim\<close>: white space and line terminators are removed at both ends
  (those below code unit 256: tab, line feed, vertical tab, form feed, carriage return,
  space, no-break space).
\<close>

definition js_space :: "char \<Rightarrow> bool" where
  "js_space c = (c \<in> set [CHR 0x09, CHR 0x0A, CHR 0x0B, CHR 0x0C, CHR 0x0D, CHR 0x20, CHR 0xA0])"

definition trim :: "string \<Rightarrow> string" where
  "trim s = rev (dropWhile js_space (rev (dropWhile js_space s)))"

text \<open>Truthiness of a value that is a string or \<open>null\<close>: \<open>null\<close> and the empty string are falsy.\<close>

definition truthy :: "string option \<Rightarrow> bool" where
  "truthy v = (case v of None \<Rightarrow> False | Some s \<Rightarrow> s \<noteq> [])"

section \<open>The realtime store (signaling.js)\<close>

text \<open>
  The persisted layout under \<^verbatim>\<open>rooms/<roomId>\<close>. An object read from the store is an
  association list of its own keys, in the order in which the store enumerates them
  (\<open>Object.keys\<close> is \<open>map fst\<close>); every stored member, offer and answer is an object
  and therefore truthy. A list of pushed children is a list in push order.
  The store keeps no empty node: a path without data reads as \<open>null\<close>, so the absent room
  is \<open>empty_room\<close> and a snapshot exists when its value differs from it.

  The database has one cell per room id. That is the store for a room id that is one path
  segment (\<open>room_key\<close> below): the code puts the id into the path as it is, so an id with a
  slash addresses a node inside some other room, which the cells do not show, and the
  statements about rooms are made for room keys.
\<close>

record member =
  m_peerId :: string
  joinedAt :: "int option"
  lastSeen :: int

record signal =
  sig_from :: string
  sig_to :: string
  description :: string
  sig_createdAt :: int

record ice_record =
  owner :: string
  candidate :: string
  ice_createdAt :: int

record room =
  createdAt :: "int option"
  members :: "(string \<times> member) list"
  offer :: "(string \<times> signal) list"
  answer :: "(string \<times> signal) list"
  callerCandidates :: "(string \<times> ice_record list) list"
  calleeCandidates :: "(string \<times> ice_record list) list"

type_synonym database = "string \<Rightarrow> room"

definition empty_room :: room where
  "empty_room = \<lparr>createdAt = None, members = [], offer = [], answer = [],
                  callerCandidates = [], calleeCandidates = []\<rparr>"

definition snapshot_exists :: "room \<Rightarrow> bool" where
  "snapshot_exists r = (r \<noteq> empty_room)"

text \<open>
  \<open>runTransaction(ref, fn)\<close>: \<open>fn\<close> gets the current value and returns the next one, or
  \<open>undefined\<close> (\<open>None\<close>) to abort; the result is \<open>{committed, snapshot}\<close>.
\<close>

definition runTransaction :: "'a \<Rightarrow> ('a \<Rightarrow> 'a option) \<Rightarrow> bool \<times> 'a" where
  "runTransaction current f = (case f current of None \<Rightarrow> (False, current) | Some v \<Rightarrow> (True, v))"

text \<open>Requests to the store's on-disconnect queue, by path.\<close>

datatype deferred = RemoveOnDisconnect "string list" | CancelOnDisconnect "string list"

datatype error = Error string | MediaRejected | InvalidPath

text \<open>
  \<open>FirebaseSignalingClient\<close>: the database it talks to, its two maps (keyed by whatever
  \<open>roomId\<close> value the caller passes, a string or \<open>null\<close>), and the on-disconnect requests
  it has sent. A cleanup handle is \<open>onDisconnect(roomRef)\<close>, determined by its key.
\<close>

record signaling =
  db :: database
  cleanupHandles :: "string option set"
  cleanupArmed :: "string option \<rightharpoonup> bool"
  disconnectOps :: "deferred list"

text \<open>
  \<open>ref(db, path)\<close> rejects a path that holds one of \<^verbatim>\<open>. # $ [ ]\<close> or a control character
  (the paths built here are never empty, and a slash separates segments). \<open>path_ok\<close> is that
  test on the part of the path that the caller supplies; \<open>room_key\<close> says that a room id is
  one segment of a path that \<open>ref\<close> accepts.
\<close>

definition invalid_path_char :: "char \<Rightarrow> bool" where
  "invalid_path_char c =
     (c \<in> set [CHR ''.'', CHR ''#'', CHR ''$'', CHR ''['', CHR '']''] \<or> (of_char c :: nat) < 32 \<or> c = CHR 0x7F)"

definition path_ok :: "string \<Rightarrow> bool" where
  "path_ok part = list_all (\<lambda>c. \<not> invalid_path_char c) part"

definition room_key :: "string \<Rightarrow> bool" where
  "room_key room_id = (room_id \<noteq> [] \<and> path_ok room_id \<and> CHR ''/'' \<notin> set room_id)"

text \<open>
  The store enumerates the children of a node in key order, which for keys that are not
  integer literals is the order of the code units. \<open>storeKey\<close> writes a child: over the
  value of an existing key, at its place in that order for a new one.
\<close>

fun key_less :: "string \<Rightarrow> string \<Rightarrow> bool" where
  "key_less [] [] = False"
| "key_less [] (d # ds) = True"
| "key_less (c # cs) [] = False"
| "key_less (c # cs) (d # ds) = (if c = d then key_less cs ds else (of_char c :: nat) < of_char d)"

fun putKey :: "string \<Rightarrow> 'v \<Rightarrow> (string \<times> 'v) list \<Rightarrow> (string \<times> 'v) list" where
  "putKey k v [] = [(k, v)]"
| "putKey k v (e # al) = (if key_less k (fst e) then (k, v) # e # al else e # putKey k v al)"

definition storeKey :: "string \<Rightarrow> 'v \<Rightarrow> (string \<times> 'v) list \<Rightarrow> (string \<times> 'v) list" where
  "storeKey k v al = (if map_of al k \<noteq> None then AList.update k v al else putKey k v al)"

text \<open>
  \<open>obj[k]\<close> read for its truth, on an object read from the store: an own key holds an
  object, and the names that every object inherits hold functions (\<open>__proto__\<close> the
  prototype), all of them truthy.
\<close>

definition inherited :: "string list" where
  "inherited = [''constructor'', ''hasOwnProperty'', ''isPrototypeOf'', ''propertyIsEnumerable'',
                ''toLocaleString'', ''toString'', ''valueOf'', ''__defineGetter__'',
                ''__defineSetter__'', ''__lookupGetter__'', ''__lookupSetter__'', ''__proto__'']"

definition truthyAt :: "(string \<times> 'v) list \<Rightarrow> string \<Rightarrow> bool" where
  "truthyAt obj k = (case map_of obj k of Some v \<Rightarrow> True | None \<Rightarrow> k \<in> set inherited)"

text \<open>
  \<open>ensureRoom\<close>. \<open>others\<close> is what other clients write to the store while this call is
  suspended between its \<open>get\<close> and its \<open>runTransaction\<close>; \<open>ts\<close> is the server timestamp.
\<close>

definition ensureRoom_with ::
  "(database \<Rightarrow> database) \<Rightarrow> signaling \<Rightarrow> string \<Rightarrow> bool \<Rightarrow> int \<Rightarrow> signaling \<times> (error + unit)" where
  "ensureRoom_with others sg roomId createIfMissing ts =
     (if \<not> path_ok roomId then (sg, Inl InvalidPath)
      else
        let snapshot = db sg roomId in
        if \<not> snapshot_exists snapshot then
          if \<not> createIfMissing then (sg, Inl (Error ''room-not-found''))
          else
            let store = others (db sg);
                createResult = runTransaction (store roomId)
                  (\<lambda>current. if snapshot_exists current then None
                              else Some (empty_room\<lparr>createdAt := Some ts, members := []\<rparr>));
                sg' = sg\<lparr>db := store(roomId := snd createResult)\<rparr>
            in if \<not> fst createResult then (sg', Inl (Error ''room-already-exists''))
               else (sg', Inr ())
        else (sg, Inr ()))"

definition ensureRoom :: "signaling \<Rightarrow> string \<Rightarrow> bool \<Rightarrow> int \<Rightarrow> signaling \<times> (error + unit)" where
  "ensureRoom = ensureRoom_with id"

text \<open>
  The update function of the transaction in \<open>joinRoom\<close>; \<open>now\<close> is \<open>nowMs()\<close>. The object
  it returns for a new peer is \<^verbatim>\<open>{...members, [peerId]: {...}}\<close>, which the store holds
  with the new key at its place.
\<close>

definition joinUpdate :: "string \<Rightarrow> int \<Rightarrow> (string \<times> member) list \<Rightarrow> (string \<times> member) list option" where
  "joinUpdate peerId now current =
     (let members = current in
      if truthyAt members peerId then Some members
      else
        let activeIds = map fst members in
        if length activeIds \<ge> 4 then None
        else Some (storeKey peerId \<lparr>m_peerId = peerId, joinedAt = Some now, lastSeen = now\<rparr> members))"

text \<open>\<open>update(memberRef, {lastSeen, peerId})\<close>: sets the two fields, creating the node if absent.\<close>

definition updateMember :: "string \<Rightarrow> int \<Rightarrow> (string \<times> member) list \<Rightarrow> (string \<times> member) list" where
  "updateMember peerId ts ms =
     storeKey peerId
       (case map_of ms peerId of
          Some m \<Rightarrow> m\<lparr>lastSeen := ts, m_peerId := peerId\<rparr>
        | None \<Rightarrow> \<lparr>m_peerId = peerId, joinedAt = None, lastSeen = ts\<rparr>) ms"

text \<open>\<open>joinRoom\<close>; a peer id is a key of the store, as the ids that \<open>join\<close> mints are.\<close>

definition joinRoom ::
  "signaling \<Rightarrow> string \<Rightarrow> string \<Rightarrow> int \<Rightarrow> int \<Rightarrow> signaling \<times> (error + string list)" where
  "joinRoom sg roomId peerId now ts =
     (if \<not> path_ok roomId then (sg, Inl InvalidPath)
      else
        let r = db sg roomId;
            joinResult = runTransaction (members r) (joinUpdate peerId now)
        in if \<not> fst joinResult then (sg, Inl (Error ''room-full''))
           else
             (sg\<lparr>db := (db sg)(roomId := r\<lparr>members := updateMember peerId ts (snd joinResult)\<rparr>),
                 disconnectOps := disconnectOps sg @
                   [RemoveOnDisconnect [''rooms'', roomId, ''members'', peerId]]\<rparr>,
              Inr (map fst (snd joinResult))))"

definition scheduleRoomCleanup :: "signaling \<Rightarrow> string option \<Rightarrow> bool \<Rightarrow> signaling" where
  "scheduleRoomCleanup sg roomId isSoleOccupant =
     (let sg1 = (if roomId \<notin> cleanupHandles sg
                 then sg\<lparr>cleanupHandles := insert roomId (cleanupHandles sg)\<rparr> else sg);
          armed = (case cleanupArmed sg1 roomId of None \<Rightarrow> False | Some b \<Rightarrow> b)
      in if isSoleOccupant \<and> \<not> armed then
           sg1\<lparr>disconnectOps := disconnectOps sg1 @ [RemoveOnDisconnect [''rooms'', tmpl roomId]],
               cleanupArmed := (cleanupArmed sg1)(roomId \<mapsto> True)\<rparr>
         else if \<not> isSoleOccupant \<and> armed then
           sg1\<lparr>disconnectOps := disconnectOps sg1 @ [CancelOnDisconnect [''rooms'', tmpl roomId]],
               cleanupArmed := (cleanupArmed sg1)(roomId \<mapsto> False)\<rparr>
         else sg1)"


definition removeRoomIfEmpty :: "signaling \<Rightarrow> string \<Rightarrow> signaling" where
  "removeRoomIfEmpty sg roomId =
     (let snapshot = db sg roomId in
      if \<not> snapshot_exists snapshot then sg
      else if length (map fst (members snapshot)) = 0 then sg\<lparr>db := (db sg)(roomId := empty_room)\<rparr>
      else sg)"

text \<open>
  The listener of \<open>subscribeToOffers\<close>, on a child \<open>(key, value)\<close> of the offer node: the
  handler gets \<^verbatim>\<open>{ id: snapshot.key, ...signal }\<close>, here the pair of the key and the record.
\<close>

definition offersListener :: "string \<Rightarrow> string \<times> signal \<Rightarrow> (string \<times> signal) option" where
  "offersListener peerId snapshot =
     (let signal = snd snapshot in
      if sig_to signal \<noteq> peerId then None else Some (fst snapshot, signal))"

definition postOffer :: "signaling \<Rightarrow> string \<Rightarrow> string \<Rightarrow> string \<Rightarrow> string \<Rightarrow> string \<Rightarrow> int \<Rightarrow> signaling" where
  "postOffer sg roomId offer_id from_id to_id desc ts =
     (let r = db sg roomId in
      sg\<lparr>db := (db sg)(roomId := r\<lparr>offer := AList.update offer_id
              \<lparr>sig_from = from_id, sig_to = to_id, description = desc, sig_createdAt = ts\<rparr> (offer r)\<rparr>)\<rparr>)"

definition postAnswer :: "signaling \<Rightarrow> string \<Rightarrow> string \<Rightarrow> string \<Rightarrow> string \<Rightarrow> string \<Rightarrow> int \<Rightarrow> signaling" where
  "postAnswer sg roomId offer_id from_id to_id desc ts =
     (let r = db sg roomId in
      sg\<lparr>db := (db sg)(roomId := r\<lparr>answer := AList.update offer_id
              \<lparr>sig_from = from_id, sig_to = to_id, description = desc, sig_createdAt = ts\<rparr> (answer r)\<rparr>)\<rparr>)"



definition clearOffer :: "signaling \<Rightarrow> string \<Rightarrow> string \<Rightarrow> signaling" where
  "clearOffer sg roomId offer_id =
     (let r = db sg roomId in sg\<lparr>db := (db sg)(roomId := r\<lparr>offer := AList.delete offer_id (offer r)\<rparr>)\<rparr>)"

definition clearAnswer :: "signaling \<Rightarrow> string \<Rightarrow> string \<Rightarrow> signaling" where
  "clearAnswer sg roomId offer_id =
     (let r = db sg roomId in sg\<lparr>db := (db sg)(roomId := r\<lparr>answer := AList.delete offer_id (answer r)\<rparr>)\<rparr>)"

definition clearCandidates :: "signaling \<Rightarrow> string \<Rightarrow> string \<Rightarrow> signaling" where
  "clearCandidates sg roomId offer_id =
     (let r = db sg roomId in
      sg\<lparr>db := (db sg)(roomId := r\<lparr>callerCandidates := AList.delete offer_id (callerCandidates r),
                                     calleeCandidates := AList.delete offer_id (calleeCandidates r)\<rparr>)\<rparr>)"



section \<open>The mesh manager (webrtc.js)\<close>

text \<open>
  A handler runs to completion and the store requests it awaits take effect in program
  order; the two places where the claims depend on what happens at a suspension point are
  written out (\<open>others\<close> in \<open>ensureRoom_with\<close>, and the two halves of teardown below).
  A subscription is the closure returned by a \<open>subscribeTo...\<close> call, named by what it
  listens to. What the manager does to its collaborators (unsubscribing, closing the
  transport, the callbacks) is appended to \<open>trace\<close>. Where \<open>this.roomId\<close> or
  \<open>this.peerId\<close> goes into a path, a key or a field of a record, the model writes \<open>tmpl\<close>
  of it, which is the value itself whenever the manager is in a room.
\<close>

datatype subscription =
    MembersSub string
  | OffersSub string string
  | AnswersSub string string
  | IceSub string string string

datatype effect =
    Unsubscribe subscription
  | PcClose string
  | RemoteStreamRemoved string
  | LocalStream
  | StatusJoined "string list"
  | StatusMembers "string list"
  | StatusLeft

record connection =
  remotePeerId :: string
  offerId :: string
  initiator :: bool
  candidateSubscriptions :: "subscription list"
  answerSubscription :: "subscription option"
  closing :: bool

record manager =
  signaling :: signaling
  roomId :: "string option"
  peerId :: "string option"
  localStream :: bool
  connections :: "(string \<times> connection) list"
  subscriptions :: "subscription list"
  trace :: "effect list"

text \<open>What the host hands to one \<open>join\<close> call.\<close>

record environment =
  mic_granted :: bool
  uuid :: string
  now_ms :: int
  server_time :: int
  local_description :: "string \<Rightarrow> string"

definition ensureLocalStream :: "manager \<Rightarrow> bool \<Rightarrow> manager \<times> (error + unit)" where
  "ensureLocalStream s granted =
     (if localStream s then (s, Inr ())
      else if granted then (s\<lparr>localStream := True, trace := trace s @ [LocalStream]\<rparr>, Inr ())
      else (s, Inl MediaRejected))"

text \<open>
  \<open>handleInitiatorFlow(connection)\<close>: the offer is posted under \<open>connection.offerId\<close>, then
  the two subscriptions are stored in the connection, which sits in the table.
\<close>

definition handleInitiatorFlow :: "manager \<Rightarrow> connection \<Rightarrow> string \<Rightarrow> int \<Rightarrow> manager \<times> connection" where
  "handleInitiatorFlow s c desc ts =
     (let sg = postOffer (signaling s) (tmpl (roomId s)) (offerId c) (tmpl (peerId s)) (remotePeerId c) desc ts;
          c' = c\<lparr>answerSubscription := Some (AnswersSub (tmpl (roomId s)) (offerId c)),
                 candidateSubscriptions := candidateSubscriptions c @
                   [IceSub (tmpl (roomId s)) (offerId c) ''callee'']\<rparr>
      in (s\<lparr>signaling := sg, connections := AList.update (remotePeerId c) c' (connections s)\<rparr>, c'))"

definition createConnection ::
  "manager \<Rightarrow> string \<Rightarrow> bool \<Rightarrow> string option \<Rightarrow> string \<Rightarrow> int \<Rightarrow> manager \<times> connection" where
  "createConnection s remote init offer_id desc ts =
     (case map_of (connections s) remote of
        Some existing \<Rightarrow> (s, existing)
      | None \<Rightarrow>
          let connectionOfferId =
                (case offer_id of Some i \<Rightarrow> i | None \<Rightarrow> buildOfferId (tmpl (peerId s)) remote);
              c = \<lparr>remotePeerId = remote, offerId = connectionOfferId, initiator = init,
                   candidateSubscriptions = [], answerSubscription = None, closing = False\<rparr>;
              s1 = s\<lparr>connections := AList.update remote c (connections s)\<rparr>
          in if init then handleInitiatorFlow s1 c desc ts else (s1, c))"

definition handleOffer :: "manager \<Rightarrow> string \<times> signal \<Rightarrow> string \<Rightarrow> int \<Rightarrow> manager" where
  "handleOffer s offerSignal desc ts =
     (let remote = sig_from (snd offerSignal);
          (s1, c) = (case map_of (connections s) remote of
                       None \<Rightarrow> createConnection s remote False (Some (fst offerSignal)) desc ts
                     | Some existing \<Rightarrow> (s, existing\<lparr>offerId := fst offerSignal\<rparr>));
          sg1 = postAnswer (signaling s1) (tmpl (roomId s1)) (offerId c) (tmpl (peerId s1)) remote desc ts;
          sg2 = clearOffer sg1 (tmpl (roomId s1)) (offerId c);
          c' = c\<lparr>candidateSubscriptions := candidateSubscriptions c @
                   [IceSub (tmpl (roomId s1)) (offerId c) ''caller'']\<rparr>
      in s1\<lparr>signaling := sg2, connections := AList.update remote c' (connections s1)\<rparr>)"

text \<open>
  \<open>teardownConnection\<close> up to its first \<open>await\<close> (the guard, the flag, the unsubscribing,
  the close, the removal from the table, the notification, and the request that clears the
  candidates), and the rest, which runs when that request has settled.
\<close>

definition teardown_begin :: "manager \<Rightarrow> string \<Rightarrow> manager \<times> connection option" where
  "teardown_begin s remote =
     (case map_of (connections s) remote of
        None \<Rightarrow> (s, None)
      | Some c \<Rightarrow>
          if closing c then (s, None)
          else
            let c' = c\<lparr>closing := True, candidateSubscriptions := [], answerSubscription := None\<rparr>;
                effects = map Unsubscribe (candidateSubscriptions c)
                          @ (case answerSubscription c of None \<Rightarrow> [] | Some a \<Rightarrow> [Unsubscribe a])
                          @ [PcClose remote, RemoteStreamRemoved remote]
            in (s\<lparr>trace := trace s @ effects,
                   connections := AList.delete remote (connections s),
                   signaling := clearCandidates (signaling s) (tmpl (roomId s)) (offerId c)\<rparr>,
                Some c'))"

definition teardown_finish :: "manager \<Rightarrow> connection \<Rightarrow> manager" where
  "teardown_finish s c =
     (if initiator c
      then s\<lparr>signaling := clearOffer (signaling s) (tmpl (roomId s)) (offerId c)\<rparr>
      else s\<lparr>signaling := clearAnswer (signaling s) (tmpl (roomId s)) (offerId c)\<rparr>)"

definition teardownConnection :: "manager \<Rightarrow> string \<Rightarrow> manager" where
  "teardownConnection s remote =
     (case teardown_begin s remote of
        (s1, None) \<Rightarrow> s1
      | (s1, Some c) \<Rightarrow> teardown_finish s1 c)"

text \<open>
  Teardowns started in a row without awaiting (\<open>forEach\<close> in the membership handler, \<open>map\<close>
  in \<open>leave\<close>): the first halves run in order, the second halves afterwards.
\<close>

fun teardown_each :: "manager \<Rightarrow> string list \<Rightarrow> manager \<times> connection list" where
  "teardown_each s [] = (s, [])"
| "teardown_each s (r # rs) =
     (case teardown_begin s r of
        (s1, pending) \<Rightarrow>
          (case teardown_each s1 rs of
             (s2, cs) \<Rightarrow> (s2, (case pending of None \<Rightarrow> [] | Some c \<Rightarrow> [c]) @ cs)))"

definition teardown_all :: "manager \<Rightarrow> string list \<Rightarrow> manager" where
  "teardown_all s rs = (case teardown_each s rs of (s1, cs) \<Rightarrow> fold (\<lambda>c st. teardown_finish st c) cs s1)"




text \<open>
  The callback that \<open>join\<close> passes to \<open>subscribeToMembers\<close>, on a notification whose
  \<open>members\<close> is \<open>ms\<close> (the keys of the members node).
\<close>

definition onMembers :: "manager \<Rightarrow> string list \<Rightarrow> manager" where
  "onMembers s ms =
     (let others = filter (\<lambda>i. Some i \<noteq> peerId s) ms;
          s1 = s\<lparr>signaling := scheduleRoomCleanup (signaling s) (roomId s)
                    (length ms = 1 \<and> Some (hd ms) = peerId s)\<rparr>;
          s2 = (if length ms = 0
                then s1\<lparr>signaling := removeRoomIfEmpty (signaling s1) (tmpl (roomId s1))\<rparr> else s1);
          s3 = s2\<lparr>trace := trace s2 @ [StatusMembers ms]\<rparr>
      in teardown_all s3 (filter (\<lambda>remoteId. remoteId \<notin> set others) (map fst (connections s3))))"

definition join_with ::
  "(database \<Rightarrow> database) \<Rightarrow> manager \<Rightarrow> string \<Rightarrow> bool \<Rightarrow> environment
     \<Rightarrow> manager \<times> (error + string option \<times> string option)" where
  "join_with others s room_id createIfMissing e =
     (if truthy (roomId s) then (s, Inl (Error ''already-in-room''))
      else
        let normalizedRoomId = trim room_id in
        if normalizedRoomId = [] then (s, Inl (Error ''invalid-room-id''))
        else
          (case ensureLocalStream s (mic_granted e) of
             (s0, Inl err) \<Rightarrow> (s0, Inl err)
           | (s0, Inr _) \<Rightarrow>
               let s1 = s0\<lparr>roomId := Some normalizedRoomId,
                           peerId := Some (''peer-'' @ take 8 (uuid e))\<rparr>
               in (case ensureRoom_with others (signaling s1) (tmpl (roomId s1)) createIfMissing
                          (server_time e) of
                     (sg, Inl err) \<Rightarrow> (s1\<lparr>signaling := sg\<rparr>, Inl err)
                   | (sg, Inr _) \<Rightarrow>
                       (case joinRoom sg (tmpl (roomId s1)) (tmpl (peerId s1)) (now_ms e)
                               (server_time e) of
                          (sg', Inl err) \<Rightarrow> (s1\<lparr>signaling := sg'\<rparr>, Inl err)
                        | (sg', Inr joined) \<Rightarrow>
                            let s2 = s1\<lparr>signaling := sg'\<rparr>;
                                existingPeers = filter (\<lambda>i. Some i \<noteq> peerId s2) joined;
                                s3 = s2\<lparr>trace := trace s2 @ [StatusJoined existingPeers],
                                        subscriptions := subscriptions s2 @
                                          [MembersSub (tmpl (roomId s2)),
                                           OffersSub (tmpl (roomId s2)) (tmpl (peerId s2))]\<rparr>;
                                s4 = fold (\<lambda>remotePeerId st.
                                             fst (createConnection st remotePeerId True None
                                                    (local_description e remotePeerId) (server_time e)))
                                       existingPeers s3
                            in (s4, Inr (roomId s4, peerId s4))))))"

definition join :: "manager \<Rightarrow> string \<Rightarrow> bool \<Rightarrow> environment
     \<Rightarrow> manager \<times> (error + string option \<times> string option)" where
  "join = join_with id"


text \<open>The constructors.\<close>

definition new_signaling :: "database \<Rightarrow> signaling" where
  "new_signaling store = \<lparr>db = store, cleanupHandles = {}, cleanupArmed = Map.empty, disconnectOps = []\<rparr>"

definition new_manager :: "signaling \<Rightarrow> manager" where
  "new_manager sg = \<lparr>signaling = sg, roomId = None, peerId = None, localStream = False,
                     connections = [], subscriptions = [], trace = []\<rparr>"

section \<open>Runs\<close>

text \<open>
  A sequence of \<open>joinRoom\<close> calls \<open>(roomId, peerId, now, ts)\<close> against one database, from
  whichever clients, with the outcome of each. \<open>joinRoom\<close> reads and writes the database and
  the caller's on-disconnect queue only, so one client record stands for all callers.
\<close>

fun joinRoom_seq ::
  "signaling \<Rightarrow> (string \<times> string \<times> int \<times> int) list \<Rightarrow> signaling \<times> (error + string list) list" where
  "joinRoom_seq sg [] = (sg, [])"
| "joinRoom_seq sg ((room_id, peer_id, now, ts) # calls) =
     (case joinRoom sg room_id peer_id now ts of
        (sg1, res) \<Rightarrow> (case joinRoom_seq sg1 calls of (sg2, ress) \<Rightarrow> (sg2, res # ress)))"

text \<open>
  The ids of the members that the store holds for a room; under a room id that is no path
  it holds none.
\<close>

definition memberIds :: "signaling \<Rightarrow> string \<Rightarrow> string list" where
  "memberIds sg room_id = (if path_ok room_id then map fst (members (db sg room_id)) else [])"

definition calls_to :: "string \<Rightarrow> (string \<times> int \<times> int) list \<Rightarrow> (string \<times> string \<times> int \<times> int) list" where
  "calls_to room_id xs = map (\<lambda>(p, now, ts). (room_id, p, now, ts)) xs"

text \<open>\<^verbatim>\<open>this.cleanupArmed.get(roomId) ?? false\<close>\<close>

definition armed :: "signaling \<Rightarrow> string option \<Rightarrow> bool" where
  "armed sg room_id = (case cleanupArmed sg room_id of None \<Rightarrow> False | Some b \<Rightarrow> b)"

text \<open>
  What survives of a client when only the database is written: the handles, the flags
  and the on-disconnect requests.
\<close>

definition client_part :: "signaling \<Rightarrow> string option set \<times> (string option \<rightharpoonup> bool) \<times> deferred list" where
  "client_part sg = (cleanupHandles sg, cleanupArmed sg, disconnectOps sg)"

text \<open>
  The manager as \<open>join\<close> has it while it awaits admission: the stream acquired, \<open>roomId\<close>
  and \<open>peerId\<close> assigned.
\<close>

definition admitting :: "manager \<Rightarrow> string \<Rightarrow> environment \<Rightarrow> manager" where
  "admitting s room_id e =
     (fst (ensureLocalStream s (mic_granted e)))\<lparr>roomId := Some (trim room_id),
        peerId := Some (''peer-'' @ take 8 (uuid e))\<rparr>"

subsection \<open>A session of two peers\<close>

text \<open>
  An empty database; a first peer that creates room \<open>r1\<close> and joins it; a second peer, on
  a client of its own against the same database, that joins \<open>r1\<close> and so opens a connection
  to the first as initiator. \<open>rival\<close> is another client creating \<open>r1\<close> at time 5.
\<close>

definition empty_database :: database where
  "empty_database = (\<lambda>_. empty_room)"

definition rival :: "database \<Rightarrow> database" where
  "rival store = store(''r1'' := empty_room\<lparr>createdAt := Some 5\<rparr>)"

definition sdp_a :: "string \<Rightarrow> string" where
  "sdp_a remote = ''sdp-a''"

definition sdp_b :: "string \<Rightarrow> string" where
  "sdp_b remote = ''sdp-b''"

definition env_a :: environment where
  "env_a = \<lparr>mic_granted = True, uuid = ''aaaaaaaa-0000-4000-8000-000000000000'', now_ms = 10,
            server_time = 11, local_description = sdp_a\<rparr>"

definition env_b :: environment where
  "env_b = \<lparr>mic_granted = True, uuid = ''bbbbbbbb-0000-4000-8000-000000000000'', now_ms = 20,
            server_time = 21, local_description = sdp_b\<rparr>"

definition manager_0 :: manager where
  "manager_0 = new_manager (new_signaling empty_database)"

definition manager_a :: manager where
  "manager_a = fst (join manager_0 ''r1'' True env_a)"

definition manager_b :: manager where
  "manager_b = fst (join (new_manager (new_signaling (db (signaling manager_a)))) '' r1 '' False env_b)"

definition link_b :: connection where
  "link_b = \<lparr>remotePeerId = ''peer-aaaaaaaa'', offerId = ''peer-bbbbbbbb__peer-aaaaaaaa'',
             initiator = True,
             candidateSubscriptions = [IceSub ''r1'' ''peer-bbbbbbbb__peer-aaaaaaaa'' ''callee''],
             answerSubscription = Some (AnswersSub ''r1'' ''peer-bbbbbbbb__peer-aaaaaaaa''),
             closing = False\<rparr>"

text \<open>
  A room filled by four peers, the third arriving before the second in key order.
\<close>

definition full_room :: signaling where
  "full_room = fst (joinRoom_seq (new_signaling empty_database)
     (calls_to ''r1'' [(''peer-aaaaaaaa'', 1, 1), (''peer-cccccccc'', 2, 2),
                       (''peer-bbbbbbbb'', 3, 3), (''peer-dddddddd'', 4, 4)]))"

section \<open>Properties of the key functions\<close>

lemma sanitizeKey_append: "sanitizeKey (xs @ ys) = sanitizeKey xs @ sanitizeKey ys"
  by (simp add: sanitizeKey_def)

lemma sanitizeKey_clean: "set (sanitizeKey raw) \<inter> set reserved = {}"
  by (auto simp: sanitizeKey_def reserved_def)

lemma alphabet_chars: "c \<in> set alphabet \<Longrightarrow> c \<notin> set reserved \<and> c \<notin> set ''01ilo'' \<and> c \<noteq> CHR ''-''"
  by (auto simp: alphabet_def reserved_def)

lemma alphabet_pick: "alphabet ! (unat (b :: 8 word) mod length alphabet) \<in> set alphabet"
  by (rule nth_mem) (simp add: alphabet_def)

lemma list8:
  assumes "length xs = 8"
  obtains a b c d e f g h where "xs = [a, b, c, d, e, f, g, h]"
  using assms by (auto simp: eval_nat_numeral length_Suc_conv)

lemma createRandomRoomId_eq:
  "createRandomRoomId [a, b, c, d, e, f, g, h] =
     [alphabet ! (unat a mod length alphabet), alphabet ! (unat b mod length alphabet),
      alphabet ! (unat c mod length alphabet), alphabet ! (unat d mod length alphabet),
      CHR ''-'',
      alphabet ! (unat e mod length alphabet), alphabet ! (unat f mod length alphabet),
      alphabet ! (unat g mod length alphabet), alphabet ! (unat h mod length alphabet)]"
  by (simp add: createRandomRoomId_def)

text \<open>
  C10. For every eight random bytes, \<open>createRandomRoomId\<close> returns nine characters
  \<open>XXXX-XXXX\<close>: a hyphen in the middle, every other character from the alphabet
  \<open>abcdefghjkmnpqrstuvwxyz23456789\<close>; so none of \<open>0 1 i l o\<close>, none of the characters
  the store reserves in a path, and never the empty string.
\<close>

theorem createRandomRoomId_format:
  assumes "length randomBytes = 8"
  shows "length (createRandomRoomId randomBytes) = 9
       \<and> createRandomRoomId randomBytes ! 4 = CHR ''-''
       \<and> (\<forall>i<9. i \<noteq> 4 \<longrightarrow> createRandomRoomId randomBytes ! i \<in> set alphabet)
       \<and> set (createRandomRoomId randomBytes) \<inter> set reserved = {}
       \<and> set (createRandomRoomId randomBytes) \<inter> set ''01ilo'' = {}
       \<and> createRandomRoomId randomBytes \<noteq> []"
proof -
  from assms obtain a b c d e f g h where xs: "randomBytes = [a, b, c, d, e, f, g, h]"
    by (rule list8)
  note pick = alphabet_pick [of a] alphabet_pick [of b] alphabet_pick [of c] alphabet_pick [of d]
    alphabet_pick [of e] alphabet_pick [of f] alphabet_pick [of g] alphabet_pick [of h]
  note ok = pick [THEN alphabet_chars]
  have 1: "length (createRandomRoomId randomBytes) = 9"
    unfolding xs createRandomRoomId_eq by simp
  have 2: "createRandomRoomId randomBytes ! 4 = CHR ''-''"
    unfolding xs createRandomRoomId_eq by simp
  have 3: "\<forall>i<9. i \<noteq> 4 \<longrightarrow> createRandomRoomId randomBytes ! i \<in> set alphabet"
    unfolding xs createRandomRoomId_eq using pick
    by (auto simp: nth_Cons' less_Suc_eq eval_nat_numeral)
  have 4: "set (createRandomRoomId randomBytes) \<inter> set reserved = {}"
    unfolding xs createRandomRoomId_eq using ok by (auto simp: reserved_def)
  have 5: "set (createRandomRoomId randomBytes) \<inter> set ''01ilo'' = {}"
    unfolding xs createRandomRoomId_eq using ok by auto
  have 6: "createRandomRoomId randomBytes \<noteq> []"
    unfolding xs createRandomRoomId_eq by simp
  from 1 2 3 4 5 6 show ?thesis by blast
qed

theorem createRandomRoomId_format_witness:
  "length [0, 31, 255, 7, 100, 30, 62, 200 :: 8 word] = 8
   \<and> createRandomRoomId [0, 31, 255, 7, 100, 30, 62, 200] = ''aahh-h9ar''
   \<and> length (createRandomRoomId [0, 31, 255, 7, 100, 30, 62, 200]) = 9"
proof -
  have h: "length [0, 31, 255, 7, 100, 30, 62, 200 :: 8 word] = 8" by simp
  have v: "createRandomRoomId [0, 31, 255, 7, 100, 30, 62, 200] = ''aahh-h9ar''"
    by (simp add: createRandomRoomId_def alphabet_def)
  from createRandomRoomId_format [OF h] h v show ?thesis by blast
qed


lemma hexdigits_not_reserved: "c \<in> set hexdigits \<Longrightarrow> c \<notin> set reserved"
  by (auto simp: hexdigits_def reserved_def)

lemma prefix_not_reserved: "c \<in> set ''peer-'' \<Longrightarrow> c \<notin> set reserved"
  by (auto simp: reserved_def)

lemma sanitizeKey_peer_id: "peer_id_format p \<Longrightarrow> sanitizeKey p = p"
proof -
  assume p: "peer_id_format p"
  have pre: "take 5 p = ''peer-''" and hex: "\<forall>c \<in> set (drop 5 p). c \<in> set hexdigits"
    using p unfolding peer_id_format_def list_all_iff by blast+
  have "c \<notin> set reserved" if "c \<in> set p" for c
  proof -
    have "set p = set (take 5 p) \<union> set (drop 5 p)"
      by (metis append_take_drop_id set_append)
    with that have "c \<in> set (take 5 p) \<or> c \<in> set (drop 5 p)" by blast
    then show ?thesis
    proof
      assume "c \<in> set (take 5 p)"
      then have "c \<in> set ''peer-''" by (simp only: pre)
      then show ?thesis by (rule prefix_not_reserved)
    next
      assume "c \<in> set (drop 5 p)"
      with hex have "c \<in> set hexdigits" by blast
      then show ?thesis by (rule hexdigits_not_reserved)
    qed
  qed
  then show ?thesis by (simp add: sanitizeKey_def map_idI)
qed

lemma buildOfferKey_split:
  "buildOfferKey from_id to_id = sanitizeKey from_id @ ''__'' @ sanitizeKey to_id"
  by (simp add: buildOfferKey_def sanitizeKey_def reserved_def)

lemma buildOfferId_peer_ids:
  "peer_id_format a \<Longrightarrow> peer_id_format b \<Longrightarrow> buildOfferId a b = a @ ''__'' @ b"
  by (simp only: buildOfferId_def buildOfferKey_split sanitizeKey_peer_id)

lemma buildOfferId_inj:
  assumes "peer_id_format a" "peer_id_format b" "peer_id_format a'" "peer_id_format b'"
    and "buildOfferId a b = buildOfferId a' b'"
  shows "a = a' \<and> b = b'"
proof -
  have "a @ ''__'' @ b = a' @ ''__'' @ b'"
    using assms by (simp add: buildOfferId_peer_ids)
  moreover have "length a = length a'"
    using assms by (simp add: peer_id_format_def)
  ultimately show ?thesis by simp
qed

text \<open>
  C9. For every pair of strings, \<open>buildOfferKey\<close> returns a string without any of the
  reserved characters \<^verbatim>\<open>. # $ [ ] /\<close>: it is the two inputs, each with every reserved
  character replaced by a hyphen (position by position, nothing else changed), joined by
  two underscores.
\<close>

theorem buildOfferKey_no_reserved:
  "set (buildOfferKey from_id to_id) \<inter> set reserved = {}
   \<and> buildOfferKey from_id to_id = sanitizeKey from_id @ ''__'' @ sanitizeKey to_id
   \<and> length (sanitizeKey raw) = length raw
   \<and> (\<forall>i<length raw. sanitizeKey raw ! i = (if raw ! i \<in> set reserved then CHR ''-'' else raw ! i))"
proof -
  have "set (buildOfferKey from_id to_id) \<inter> set reserved = {}"
    unfolding buildOfferKey_def by (rule sanitizeKey_clean)
  moreover have "length (sanitizeKey raw) = length raw"
    by (simp add: sanitizeKey_def)
  moreover have "\<forall>i<length raw. sanitizeKey raw ! i = (if raw ! i \<in> set reserved then CHR ''-'' else raw ! i)"
    by (simp add: sanitizeKey_def)
  ultimately show ?thesis
    using buildOfferKey_split by blast
qed

theorem buildOfferKey_no_reserved_witness:
  "buildOfferKey ''a.b/c'' ''x[1]#$'' = ''a-b-c__x-1---''
   \<and> sanitizeKey ''a.b'' ! 1 = CHR ''-''"
  using buildOfferKey_no_reserved [of "''a.b/c''" "''x[1]#$''" "''a.b''"]
  by (simp add: sanitizeKey_def reserved_def)


section \<open>Admission (joinRoom)\<close>

lemma map_of_None_keys: "(map_of al k = None) = (k \<notin> set (map fst al))"
  by (simp add: map_of_eq_None_iff)

lemma putKey_lookup: "map_of al k = None \<Longrightarrow> map_of (putKey k v al) = (map_of al)(k \<mapsto> v)"
  by (induction al) (auto simp: fun_eq_iff)

lemma storeKey_lookup: "map_of (storeKey k v al) = (map_of al)(k \<mapsto> v)"
  by (simp add: storeKey_def putKey_lookup update_conv')

lemma storeKey_old_key:
  "k \<in> set (map fst al) \<Longrightarrow> map fst (storeKey k v al) = map fst al"
  by (simp add: storeKey_def map_of_None_keys update_keys)

lemma joinUpdate_cases:
  "joinUpdate p now ms =
     (if truthyAt ms p then Some ms
      else if 4 \<le> length ms then None
      else Some (storeKey p \<lparr>m_peerId = p, joinedAt = Some now, lastSeen = now\<rparr> ms))"
  by (simp add: joinUpdate_def Let_def)

lemma truthyAt_iff: "truthyAt obj k = (k \<in> set (map fst obj) \<or> k \<in> set inherited)"
proof (cases "map_of obj k")
  case None
  then have "k \<notin> set (map fst obj)" using map_of_None_keys [of obj k] by simp
  with None show ?thesis by (simp add: truthyAt_def)
next
  case (Some v)
  then have "k \<in> set (map fst obj)" using map_of_None_keys [of obj k] by simp
  with Some show ?thesis by (simp add: truthyAt_def)
qed

lemma truthyAt_member: "p \<in> set (map fst ms) \<Longrightarrow> truthyAt ms p"
  by (simp add: truthyAt_iff)

lemma updateMember_keys:
  "p \<in> set (map fst ms) \<Longrightarrow> map fst (updateMember p ts ms) = map fst ms"
  by (simp add: updateMember_def storeKey_old_key)

lemma joinRoom_no_path:
  "\<not> path_ok r \<Longrightarrow> joinRoom sg r p now ts = (sg, Inl InvalidPath)"
  by (simp add: joinRoom_def)

lemma joinRoom_member:
  assumes "path_ok r" "p \<in> set (map fst (members (db sg r)))"
  shows "joinRoom sg r p now ts =
           (sg\<lparr>db := (db sg)(r := (db sg r)\<lparr>members := updateMember p ts (members (db sg r))\<rparr>),
               disconnectOps := disconnectOps sg @ [RemoveOnDisconnect [''rooms'', r, ''members'', p]]\<rparr>,
            Inr (map fst (members (db sg r))))"
  using assms
  by (simp add: joinRoom_def Let_def runTransaction_def joinUpdate_cases truthyAt_member)



lemma key_order_peers:
  "key_less ''constructor'' ''peer-aaaaaaaa''"
  "key_less ''peer-aaaaaaaa'' ''peer-bbbbbbbb''" "\<not> key_less ''peer-bbbbbbbb'' ''peer-aaaaaaaa''"
  "key_less ''peer-aaaaaaaa'' ''peer-cccccccc''" "\<not> key_less ''peer-cccccccc'' ''peer-aaaaaaaa''"
  "key_less ''peer-bbbbbbbb'' ''peer-cccccccc''" "\<not> key_less ''peer-cccccccc'' ''peer-bbbbbbbb''"
  "\<not> key_less ''peer-dddddddd'' ''peer-aaaaaaaa''" "\<not> key_less ''peer-dddddddd'' ''peer-bbbbbbbb''"
  "\<not> key_less ''peer-dddddddd'' ''peer-cccccccc''"
  by simp_all

lemma path_ok_r1: "path_ok ''r1''" "room_key ''r1''"
  by (simp_all add: room_key_def path_ok_def invalid_path_char_def)

lemma full_room_members:
  "members (db full_room ''r1'') =
     [(''peer-aaaaaaaa'', \<lparr>m_peerId = ''peer-aaaaaaaa'', joinedAt = Some 1, lastSeen = 1\<rparr>),
      (''peer-bbbbbbbb'', \<lparr>m_peerId = ''peer-bbbbbbbb'', joinedAt = Some 3, lastSeen = 3\<rparr>),
      (''peer-cccccccc'', \<lparr>m_peerId = ''peer-cccccccc'', joinedAt = Some 2, lastSeen = 2\<rparr>),
      (''peer-dddddddd'', \<lparr>m_peerId = ''peer-dddddddd'', joinedAt = Some 4, lastSeen = 4\<rparr>)]"
  by (simp add: full_room_def calls_to_def joinRoom_def path_ok_r1 Let_def runTransaction_def
      joinUpdate_def truthyAt_iff inherited_def updateMember_def storeKey_def key_order_peers
      new_signaling_def empty_database_def empty_room_def)

lemma full_room_ids:
  "memberIds full_room ''r1'' = [''peer-aaaaaaaa'', ''peer-bbbbbbbb'', ''peer-cccccccc'', ''peer-dddddddd'']"
  by (simp add: memberIds_def path_ok_r1 full_room_members)


text \<open>
  C6. \<open>joinRoom\<close> for a peer that is already a member succeeds whatever the size of the
  room, never with \<open>room-full\<close>: the transaction commits the members it read, unchanged,
  the call returns their ids, and afterwards the room has the same member ids, the record
  of every other member as it was, and the peer's own record with \<open>lastSeen\<close> refreshed.
\<close>

theorem joinRoom_member_again:
  assumes "p \<in> set (memberIds sg r)"
  shows "runTransaction (members (db sg r)) (joinUpdate p now) = (True, members (db sg r))
       \<and> snd (joinRoom sg r p now ts) = Inr (memberIds sg r)
       \<and> memberIds (fst (joinRoom sg r p now ts)) r = memberIds sg r
       \<and> (\<forall>q. q \<noteq> p \<longrightarrow> map_of (members (db (fst (joinRoom sg r p now ts)) r)) q
                              = map_of (members (db sg r)) q)
       \<and> (\<exists>m. map_of (members (db sg r)) p = Some m
              \<and> map_of (members (db (fst (joinRoom sg r p now ts)) r)) p
                  = Some (m\<lparr>lastSeen := ts, m_peerId := p\<rparr>))"
proof -
  from assms have ok: "path_ok r" and k: "p \<in> set (map fst (members (db sg r)))"
    by (simp_all add: memberIds_def split: if_splits)
  from k obtain m where m: "map_of (members (db sg r)) p = Some m"
    by (cases "map_of (members (db sg r)) p") (simp_all add: map_of_None_keys)
  have ids0: "memberIds sg r = map fst (members (db sg r))"
    using ok by (simp add: memberIds_def)
  have tx: "runTransaction (members (db sg r)) (joinUpdate p now) = (True, members (db sg r))"
    using k by (simp add: runTransaction_def joinUpdate_cases truthyAt_member)
  have res: "snd (joinRoom sg r p now ts) = Inr (memberIds sg r)"
    by (simp add: joinRoom_member [OF ok k] ids0)
  have ms: "members (db (fst (joinRoom sg r p now ts)) r) = updateMember p ts (members (db sg r))"
    by (simp add: joinRoom_member [OF ok k])
  have ids: "memberIds (fst (joinRoom sg r p now ts)) r = memberIds sg r"
    using ok by (simp add: memberIds_def ms updateMember_keys [OF k])
  have other: "\<forall>q. q \<noteq> p \<longrightarrow> map_of (members (db (fst (joinRoom sg r p now ts)) r)) q
                              = map_of (members (db sg r)) q"
    by (simp add: ms updateMember_def storeKey_lookup)
  have own: "map_of (members (db (fst (joinRoom sg r p now ts)) r)) p
               = Some (m\<lparr>lastSeen := ts, m_peerId := p\<rparr>)"
    by (simp add: ms updateMember_def storeKey_lookup m)
  from tx res ids other m own show ?thesis by blast
qed

theorem joinRoom_member_again_witness:
  "''peer-bbbbbbbb'' \<in> set (memberIds full_room ''r1'')
   \<and> snd (joinRoom full_room ''r1'' ''peer-bbbbbbbb'' 9 9)
       = Inr [''peer-aaaaaaaa'', ''peer-bbbbbbbb'', ''peer-cccccccc'', ''peer-dddddddd'']"
proof -
  have h: "''peer-bbbbbbbb'' \<in> set (memberIds full_room ''r1'')"
    by (simp add: full_room_ids)
  from joinRoom_member_again [OF h, of 9 9] h show ?thesis
    by (simp only: full_room_ids)
qed

section \<open>The session of two peers, evaluated\<close>

lemma trim_r1: "trim ''r1'' = ''r1''" "trim '' r1 '' = ''r1''"
  by (simp_all add: trim_def js_space_def)

lemma manager_a_eq:
  "manager_a = \<lparr>signaling = \<lparr>db = empty_database(''r1'' := empty_room\<lparr>createdAt := Some 11,
        members := [(''peer-aaaaaaaa'', \<lparr>m_peerId = ''peer-aaaaaaaa'', joinedAt = Some 10, lastSeen = 11\<rparr>)]\<rparr>),
      cleanupHandles = {}, cleanupArmed = Map.empty,
      disconnectOps = [RemoveOnDisconnect [''rooms'', ''r1'', ''members'', ''peer-aaaaaaaa'']]\<rparr>,
     roomId = Some ''r1'', peerId = Some ''peer-aaaaaaaa'', localStream = True, connections = [],
     subscriptions = [MembersSub ''r1'', OffersSub ''r1'' ''peer-aaaaaaaa''],
     trace = [LocalStream, StatusJoined []]\<rparr>"
  by (simp add: manager_a_def manager_0_def join_def join_with_def trim_r1 truthy_def new_manager_def
      new_signaling_def ensureLocalStream_def env_a_def ensureRoom_with_def snapshot_exists_def
      runTransaction_def joinRoom_def joinUpdate_def updateMember_def tmpl_def Let_def
      empty_room_def empty_database_def path_ok_r1 truthyAt_iff inherited_def storeKey_def)

lemma manager_b_fields:
  "roomId manager_b = Some ''r1''"
  "peerId manager_b = Some ''peer-bbbbbbbb''"
  "connections manager_b = [(''peer-aaaaaaaa'', link_b)]"
  "trace manager_b = [LocalStream, StatusJoined [''peer-aaaaaaaa'']]"
  "client_part (signaling manager_b)
     = ({}, Map.empty, [RemoveOnDisconnect [''rooms'', ''r1'', ''members'', ''peer-bbbbbbbb'']])"
  "memberIds (signaling manager_b) ''r1'' = [''peer-aaaaaaaa'', ''peer-bbbbbbbb'']"
  "map fst (offer (db (signaling manager_b) ''r1'')) = [''peer-bbbbbbbb__peer-aaaaaaaa'']"
  by (simp_all add: manager_b_def manager_a_eq join_def join_with_def trim_r1 truthy_def new_manager_def
      new_signaling_def ensureLocalStream_def env_b_def ensureRoom_with_def snapshot_exists_def
      runTransaction_def joinRoom_def joinUpdate_def updateMember_def tmpl_def Let_def
      empty_room_def empty_database_def createConnection_def handleInitiatorFlow_def postOffer_def
      buildOfferId_def buildOfferKey_def sanitizeKey_def reserved_def link_b_def sdp_b_def
      client_part_def memberIds_def path_ok_r1 truthyAt_iff inherited_def storeKey_def key_order_peers)

section \<open>Room creation and the manager's join\<close>

lemma room_key_path: "room_key r \<Longrightarrow> path_ok r"
  by (simp add: room_key_def)


lemma ensureRoom_with_absent_no_create:
  "path_ok r \<Longrightarrow> \<not> snapshot_exists (db sg r) \<Longrightarrow>
   ensureRoom_with others sg r False ts = (sg, Inl (Error ''room-not-found''))"
  by (simp add: ensureRoom_with_def Let_def)

lemma created_exists: "snapshot_exists (empty_room\<lparr>createdAt := Some ts, members := []\<rparr>)"
  by (simp add: snapshot_exists_def empty_room_def)

lemma ensureRoom_with_absent_create_win:
  "path_ok r \<Longrightarrow> \<not> snapshot_exists (db sg r) \<Longrightarrow> \<not> snapshot_exists (others (db sg) r) \<Longrightarrow>
   ensureRoom_with others sg r True ts
     = (sg\<lparr>db := (others (db sg))(r := empty_room\<lparr>createdAt := Some ts, members := []\<rparr>)\<rparr>, Inr ())"
  by (simp add: ensureRoom_with_def Let_def runTransaction_def)

lemma ensureRoom_with_absent_create_lose:
  "path_ok r \<Longrightarrow> \<not> snapshot_exists (db sg r) \<Longrightarrow> snapshot_exists (others (db sg) r) \<Longrightarrow>
   ensureRoom_with others sg r True ts = (sg\<lparr>db := others (db sg)\<rparr>, Inl (Error ''room-already-exists''))"
  by (simp add: ensureRoom_with_def Let_def runTransaction_def)

lemma ensureRoom_with_present:
  "path_ok r \<Longrightarrow> snapshot_exists (db sg r) \<Longrightarrow> ensureRoom_with others sg r c ts = (sg, Inr ())"
  by (simp add: ensureRoom_with_def Let_def)







lemma join_with_ensureRoom_fails:
  assumes "\<not> truthy (roomId s)" "trim room_id \<noteq> []" "localStream s \<or> mic_granted e"
    and "ensureRoom_with others (signaling (admitting s room_id e)) (trim room_id) c (server_time e) = (sg, Inl err)"
  shows "join_with others s room_id c e = ((admitting s room_id e)\<lparr>signaling := sg\<rparr>, Inl err)"
  using assms
  by (auto simp: join_with_def admitting_def ensureLocalStream_def tmpl_def Let_def)




lemma teardown_finish_roomId [simp]:
  "roomId (teardown_finish s c) = roomId s" "peerId (teardown_finish s c) = peerId s"
  by (simp_all add: teardown_finish_def)








text \<open>
  C3, as the claim states it, fails: a room that is absent when \<open>ensureRoom\<close> reads it and
  that another client creates before the creating transaction runs makes \<open>ensureRoom\<close> fail
  with \<open>room-already-exists\<close>, and \<open>join\<close> hands that failure to its caller.
\<close>

theorem ensureRoom_loser_counterexample:
  "\<not> snapshot_exists (db (signaling manager_0) ''r1'')
   \<and> snd (ensureRoom_with rival (signaling manager_0) ''r1'' True 11) = Inl (Error ''room-already-exists'')
   \<and> snd (join_with rival manager_0 ''r1'' True env_a) = Inl (Error ''room-already-exists'')"
  by (simp add: manager_0_def join_with_def trim_r1 truthy_def new_manager_def
      new_signaling_def ensureLocalStream_def env_a_def ensureRoom_with_def snapshot_exists_def
      runTransaction_def tmpl_def Let_def empty_room_def empty_database_def rival_def path_ok_r1)

text \<open>
  C3, amended. For a room id that is one segment of a valid path (not empty, none of
  \<^verbatim>\<open>. # $ [ ] /\<close>, no control character) and a room that is absent when it is read:
  \<open>ensureRoom\<close> fails with \<open>room-not-found\<close> when \<open>createIfMissing\<close> is false. When it is
  true and the room is still absent when the creating transaction runs (always so when no
  other client writes in between), the call succeeds and the room exists afterwards. When
  another client has created the room in between, the transaction aborts, the call fails
  with \<open>room-already-exists\<close>, \<open>join\<close> fails with the same error, and the room exists.
\<close>

theorem ensureRoom_absent_room:
  assumes "room_key r" and "\<not> snapshot_exists (db sg r)"
  shows "ensureRoom_with others sg r False ts = (sg, Inl (Error ''room-not-found''))
       \<and> (\<not> snapshot_exists (others (db sg) r) \<longrightarrow>
            snd (ensureRoom_with others sg r True ts) = Inr ()
            \<and> snapshot_exists (db (fst (ensureRoom_with others sg r True ts)) r))
       \<and> snd (ensureRoom sg r True ts) = Inr ()
       \<and> snapshot_exists (db (fst (ensureRoom sg r True ts)) r)
       \<and> (snapshot_exists (others (db sg) r) \<longrightarrow>
            snd (ensureRoom_with others sg r True ts) = Inl (Error ''room-already-exists'')
            \<and> snapshot_exists (db (fst (ensureRoom_with others sg r True ts)) r)
            \<and> (signaling s = sg \<and> \<not> truthy (roomId s) \<and> trim room_id = r \<and> r \<noteq> []
                 \<and> (localStream s \<or> mic_granted e) \<longrightarrow>
               snd (join_with others s room_id True e) = Inl (Error ''room-already-exists'')))"
proof -
  note ok = room_key_path [OF assms(1)]
  note a = assms(2)
  have 1: "ensureRoom_with others sg r False ts = (sg, Inl (Error ''room-not-found''))"
    using ok a by (rule ensureRoom_with_absent_no_create)
  have 2: "snd (ensureRoom_with others sg r True ts) = Inr ()
            \<and> snapshot_exists (db (fst (ensureRoom_with others sg r True ts)) r)"
    if "\<not> snapshot_exists (others (db sg) r)"
    unfolding ensureRoom_with_absent_create_win [where others = others, OF ok a that]
    by (simp add: created_exists)
  have "\<not> snapshot_exists (id (db sg) r)" using a by simp
  from ensureRoom_with_absent_create_win [where others = id, OF ok a this]
  have 3: "snd (ensureRoom sg r True ts) = Inr ()
       \<and> snapshot_exists (db (fst (ensureRoom sg r True ts)) r)"
    by (simp add: ensureRoom_def created_exists)
  have 4: "snd (ensureRoom_with others sg r True ts) = Inl (Error ''room-already-exists'')
            \<and> snapshot_exists (db (fst (ensureRoom_with others sg r True ts)) r)"
    if "snapshot_exists (others (db sg) r)"
    unfolding ensureRoom_with_absent_create_lose [where others = others, OF ok a that]
    using that by simp
  have 5: "snd (join_with others s room_id True e) = Inl (Error ''room-already-exists'')"
    if lose: "snapshot_exists (others (db sg) r)"
      and s: "signaling s = sg" "\<not> truthy (roomId s)" "trim room_id = r" "r \<noteq> []"
             "localStream s \<or> mic_granted e"
  proof -
    have sg: "signaling (admitting s room_id e) = sg"
      using s(1) by (simp add: admitting_def ensureLocalStream_def)
    have "ensureRoom_with others (signaling (admitting s room_id e)) (trim room_id) True (server_time e)
            = (sg\<lparr>db := others (db sg)\<rparr>, Inl (Error ''room-already-exists''))"
      unfolding sg s(3) by (rule ensureRoom_with_absent_create_lose [where others = others, OF ok a lose])
    from join_with_ensureRoom_fails [OF s(2) _ s(5) this] s(3) s(4) show ?thesis by simp
  qed
  from 1 2 3 4 5 show ?thesis by blast
qed

theorem ensureRoom_absent_room_witness:
  "room_key ''r1''
   \<and> \<not> snapshot_exists (db (signaling manager_0) ''r1'')
   \<and> \<not> snapshot_exists (id (db (signaling manager_0)) ''r1'')
   \<and> snapshot_exists (rival (db (signaling manager_0)) ''r1'')
   \<and> ensureRoom_with rival (signaling manager_0) ''r1'' False 11
        = (signaling manager_0, Inl (Error ''room-not-found''))
   \<and> snd (ensureRoom (signaling manager_0) ''r1'' True 11) = Inr ()
   \<and> snapshot_exists (db (fst (ensureRoom_with id (signaling manager_0) ''r1'' True 11)) ''r1'')
   \<and> snd (join_with rival manager_0 ''r1'' True env_a) = Inl (Error ''room-already-exists'')"
proof -
  note k = path_ok_r1(2)
  have h: "\<not> snapshot_exists (db (signaling manager_0) ''r1'')"
    by (simp add: manager_0_def new_manager_def new_signaling_def empty_database_def snapshot_exists_def)
  then have h1: "\<not> snapshot_exists (id (db (signaling manager_0)) ''r1'')" by simp
  have h2: "snapshot_exists (rival (db (signaling manager_0)) ''r1'')"
    by (simp add: rival_def snapshot_exists_def empty_room_def)
  have h3: "signaling manager_0 = signaling manager_0 \<and> \<not> truthy (roomId manager_0)
            \<and> trim ''r1'' = ''r1'' \<and> ''r1'' \<noteq> [] \<and> (localStream manager_0 \<or> mic_granted env_a)"
    by (simp add: manager_0_def new_manager_def truthy_def trim_r1 env_a_def)
  from ensureRoom_absent_room [OF k h, of rival 11 manager_0 "''r1''" env_a]
       ensureRoom_absent_room [OF k h, of id 11 manager_0 "''r1''" env_a] k h h1 h2 h3
  show ?thesis by blast
qed



section \<open>Teardown\<close>

lemma teardown_begin_absent:
  "map_of (connections s) remote = None \<Longrightarrow> teardown_begin s remote = (s, None)"
  by (simp add: teardown_begin_def)

lemma teardown_begin_closing:
  "map_of (connections s) remote = Some c \<Longrightarrow> closing c \<Longrightarrow> teardown_begin s remote = (s, None)"
  by (simp add: teardown_begin_def)

lemma teardown_begin_live:
  "map_of (connections s) remote = Some c \<Longrightarrow> \<not> closing c \<Longrightarrow>
   teardown_begin s remote =
     (s\<lparr>trace := trace s @ map Unsubscribe (candidateSubscriptions c)
                 @ (case answerSubscription c of None \<Rightarrow> [] | Some a \<Rightarrow> [Unsubscribe a])
                 @ [PcClose remote, RemoteStreamRemoved remote],
         connections := AList.delete remote (connections s),
         signaling := clearCandidates (signaling s) (tmpl (roomId s)) (offerId c)\<rparr>,
      Some (c\<lparr>closing := True, candidateSubscriptions := [], answerSubscription := None\<rparr>))"
  by (simp add: teardown_begin_def Let_def)

lemma teardown_begin_removes:
  "teardown_begin s remote = (s1, pending) \<Longrightarrow> pending \<noteq> None \<Longrightarrow> map_of (connections s1) remote = None"
  by (auto simp: teardown_begin_def Let_def delete_conv' split: option.splits if_splits)

lemma teardown_begin_none:
  "teardown_begin s remote = (s1, None) \<Longrightarrow> s1 = s"
  by (auto simp: teardown_begin_def Let_def split: option.splits if_splits)

lemma teardown_finish_connections [simp]:
  "connections (teardown_finish s c) = connections s"
  by (simp add: teardown_finish_def)

lemma teardown_finish_trace [simp]:
  "trace (teardown_finish s c) = trace s"
  by (simp add: teardown_finish_def)

lemma teardownConnection_absent:
  "map_of (connections s) remote = None \<Longrightarrow> teardownConnection s remote = s"
  by (simp add: teardownConnection_def teardown_begin_absent)

lemma teardownConnection_closing:
  "map_of (connections s) remote = Some c \<Longrightarrow> closing c \<Longrightarrow> teardownConnection s remote = s"
  by (simp add: teardownConnection_def teardown_begin_closing)

lemma teardownConnection_removes_or_same:
  "map_of (connections (teardownConnection s remote)) remote = None \<or> teardownConnection s remote = s"
proof (cases "teardown_begin s remote")
  case (Pair s1 pending)
  show ?thesis
  proof (cases pending)
    case None
    with Pair show ?thesis by (simp add: teardownConnection_def teardown_begin_none)
  next
    case (Some c)
    with Pair have "map_of (connections s1) remote = None"
      by (auto dest: teardown_begin_removes)
    with Pair Some show ?thesis by (simp add: teardownConnection_def)
  qed
qed

lemma teardownConnection_twice:
  "teardownConnection (teardownConnection s remote) remote = teardownConnection s remote"
  using teardownConnection_removes_or_same [of s remote]
  by (auto simp: teardownConnection_absent)

text \<open>
  C2. Teardown of a connection is idempotent. A second \<open>teardownConnection\<close> for the same
  remote peer, whether it runs after the first has finished or while the first is suspended
  at its \<open>await\<close>, returns at the guard and changes nothing, because the connection is no
  longer in the table (or has its \<open>closing\<close> flag set); so the unsubscribe, close and notify
  sequence of a live connection is executed exactly once.
\<close>

theorem teardown_idempotent:
  "teardownConnection (teardownConnection s remote) remote = teardownConnection s remote
   \<and> (teardown_begin s remote = (s1, Some c1) \<longrightarrow>
        teardownConnection s1 remote = s1
        \<and> teardown_finish (teardownConnection s1 remote) c1 = teardownConnection s remote)
   \<and> (map_of (connections s) remote = Some c \<and> \<not> closing c \<longrightarrow>
        trace (teardownConnection s remote)
          = trace s @ map Unsubscribe (candidateSubscriptions c)
                    @ (case answerSubscription c of None \<Rightarrow> [] | Some a \<Rightarrow> [Unsubscribe a])
                    @ [PcClose remote, RemoteStreamRemoved remote]
        \<and> map_of (connections (teardownConnection s remote)) remote = None)
   \<and> (map_of (connections s) remote = Some c \<and> closing c \<longrightarrow> teardownConnection s remote = s)
   \<and> (map_of (connections s) remote = None \<longrightarrow> teardownConnection s remote = s)"
proof -
  have 2: "teardownConnection s1 remote = s1
           \<and> teardown_finish (teardownConnection s1 remote) c1 = teardownConnection s remote"
    if b: "teardown_begin s remote = (s1, Some c1)"
  proof -
    from b have "map_of (connections s1) remote = None"
      by (auto dest: teardown_begin_removes)
    then have "teardownConnection s1 remote = s1" by (rule teardownConnection_absent)
    with b show ?thesis by (simp add: teardownConnection_def)
  qed
  have 3: "trace (teardownConnection s remote)
          = trace s @ map Unsubscribe (candidateSubscriptions c)
                    @ (case answerSubscription c of None \<Rightarrow> [] | Some a \<Rightarrow> [Unsubscribe a])
                    @ [PcClose remote, RemoteStreamRemoved remote]
        \<and> map_of (connections (teardownConnection s remote)) remote = None"
    if "map_of (connections s) remote = Some c" "\<not> closing c"
    using that by (simp add: teardownConnection_def teardown_begin_live delete_conv')
  from teardownConnection_twice 2 3 teardownConnection_closing teardownConnection_absent
  show ?thesis by blast
qed

theorem teardown_idempotent_witness:
  "map_of (connections manager_b) ''peer-aaaaaaaa'' = Some link_b \<and> \<not> closing link_b
   \<and> trace (teardownConnection manager_b ''peer-aaaaaaaa'')
       = [LocalStream, StatusJoined [''peer-aaaaaaaa''],
          Unsubscribe (IceSub ''r1'' ''peer-bbbbbbbb__peer-aaaaaaaa'' ''callee''),
          Unsubscribe (AnswersSub ''r1'' ''peer-bbbbbbbb__peer-aaaaaaaa''),
          PcClose ''peer-aaaaaaaa'', RemoteStreamRemoved ''peer-aaaaaaaa'']
   \<and> trace (teardownConnection (teardownConnection manager_b ''peer-aaaaaaaa'') ''peer-aaaaaaaa'')
       = trace (teardownConnection manager_b ''peer-aaaaaaaa'')
   \<and> teardownConnection (fst (teardown_begin manager_b ''peer-aaaaaaaa'')) ''peer-aaaaaaaa''
       = fst (teardown_begin manager_b ''peer-aaaaaaaa'')
   \<and> teardownConnection (manager_b\<lparr>connections := [(''peer-aaaaaaaa'', link_b\<lparr>closing := True\<rparr>)]\<rparr>)
         ''peer-aaaaaaaa''
       = manager_b\<lparr>connections := [(''peer-aaaaaaaa'', link_b\<lparr>closing := True\<rparr>)]\<rparr>
   \<and> teardownConnection manager_a ''peer-bbbbbbbb'' = manager_a"
proof -
  have h: "map_of (connections manager_b) ''peer-aaaaaaaa'' = Some link_b \<and> \<not> closing link_b"
    by (simp add: manager_b_fields link_b_def)
  obtain s1 c1 where b: "teardown_begin manager_b ''peer-aaaaaaaa'' = (s1, Some c1)"
    using teardown_begin_live [of manager_b "''peer-aaaaaaaa''" link_b] h by simp
  have hc: "map_of (connections (manager_b\<lparr>connections := [(''peer-aaaaaaaa'', link_b\<lparr>closing := True\<rparr>)]\<rparr>))
              ''peer-aaaaaaaa'' = Some (link_b\<lparr>closing := True\<rparr>) \<and> closing (link_b\<lparr>closing := True\<rparr>)"
    by simp
  have ha: "map_of (connections manager_a) ''peer-bbbbbbbb'' = None"
    by (simp add: manager_a_eq)
  have tr: "trace manager_b @ map Unsubscribe (candidateSubscriptions link_b)
              @ (case answerSubscription link_b of None \<Rightarrow> [] | Some a \<Rightarrow> [Unsubscribe a])
              @ [PcClose ''peer-aaaaaaaa'', RemoteStreamRemoved ''peer-aaaaaaaa'']
            = [LocalStream, StatusJoined [''peer-aaaaaaaa''],
               Unsubscribe (IceSub ''r1'' ''peer-bbbbbbbb__peer-aaaaaaaa'' ''callee''),
               Unsubscribe (AnswersSub ''r1'' ''peer-bbbbbbbb__peer-aaaaaaaa''),
               PcClose ''peer-aaaaaaaa'', RemoteStreamRemoved ''peer-aaaaaaaa'']"
    by (simp add: manager_b_fields link_b_def)
  from teardown_idempotent [of manager_b "''peer-aaaaaaaa''" s1 c1 link_b] h b
  have 1: "trace (teardownConnection manager_b ''peer-aaaaaaaa'')
             = trace manager_b @ map Unsubscribe (candidateSubscriptions link_b)
               @ (case answerSubscription link_b of None \<Rightarrow> [] | Some a \<Rightarrow> [Unsubscribe a])
               @ [PcClose ''peer-aaaaaaaa'', RemoteStreamRemoved ''peer-aaaaaaaa'']"
    and 2: "teardownConnection (teardownConnection manager_b ''peer-aaaaaaaa'') ''peer-aaaaaaaa''
             = teardownConnection manager_b ''peer-aaaaaaaa''"
    and 3: "teardownConnection s1 ''peer-aaaaaaaa'' = s1"
    by blast+
  from teardown_idempotent [of "manager_b\<lparr>connections := [(''peer-aaaaaaaa'', link_b\<lparr>closing := True\<rparr>)]\<rparr>"
      "''peer-aaaaaaaa''" s1 c1 "link_b\<lparr>closing := True\<rparr>"] hc
  have 4: "teardownConnection (manager_b\<lparr>connections := [(''peer-aaaaaaaa'', link_b\<lparr>closing := True\<rparr>)]\<rparr>)
             ''peer-aaaaaaaa''
           = manager_b\<lparr>connections := [(''peer-aaaaaaaa'', link_b\<lparr>closing := True\<rparr>)]\<rparr>"
    by blast
  from teardown_idempotent [of manager_a "''peer-bbbbbbbb''" s1 c1 link_b] ha
  have 5: "teardownConnection manager_a ''peer-bbbbbbbb'' = manager_a"
    by blast
  from h 1 2 3 4 5 show ?thesis
    by (simp add: tr b)
qed

section \<open>Cleanup arming\<close>

lemma client_part_clear [simp]:
  "client_part (clearCandidates sg r k) = client_part sg"
  "client_part (clearOffer sg r k) = client_part sg"
  "client_part (clearAnswer sg r k) = client_part sg"
  "client_part (removeRoomIfEmpty sg r) = client_part sg"
  by (simp_all add: client_part_def clearCandidates_def clearOffer_def clearAnswer_def
        removeRoomIfEmpty_def Let_def)

lemma client_part_teardown_begin [simp]:
  "client_part (signaling (fst (teardown_begin s remote))) = client_part (signaling s)"
  by (simp add: teardown_begin_def Let_def split: option.splits)

lemma client_part_teardown_finish [simp]:
  "client_part (signaling (teardown_finish s c)) = client_part (signaling s)"
  by (simp add: teardown_finish_def)

lemma teardown_each_Cons_fst:
  "fst (teardown_each s (r # rs)) = fst (teardown_each (fst (teardown_begin s r)) rs)"
  by (simp split: prod.splits)

lemma client_part_teardown_each [simp]:
  "client_part (signaling (fst (teardown_each s rs))) = client_part (signaling s)"
proof (induction rs arbitrary: s)
  case Nil
  show ?case by simp
next
  case (Cons r rs)
  have "client_part (signaling (fst (teardown_each (fst (teardown_begin s r)) rs)))
          = client_part (signaling (fst (teardown_begin s r)))"
    by (rule Cons.IH)
  then show ?case by (simp only: teardown_each_Cons_fst client_part_teardown_begin)
qed

lemma client_part_fold_finish [simp]:
  "client_part (signaling (fold (\<lambda>c st. teardown_finish st c) cs s)) = client_part (signaling s)"
  by (induction cs arbitrary: s) simp_all

lemma client_part_teardown_all [simp]:
  "client_part (signaling (teardown_all s rs)) = client_part (signaling s)"
proof -
  obtain s1 cs where e: "teardown_each s rs = (s1, cs)" by (cases "teardown_each s rs")
  have "client_part (signaling s1) = client_part (signaling s)"
    using client_part_teardown_each [of s rs] by (simp add: e)
  then show ?thesis by (simp add: teardown_all_def e)
qed

lemma armed_client_part: "client_part sg = client_part sg' \<Longrightarrow> armed sg k = armed sg' k"
  by (simp add: client_part_def armed_def)

lemma armed_scheduleRoomCleanup: "armed (scheduleRoomCleanup sg k b) k = b"
  by (auto simp: scheduleRoomCleanup_def armed_def Let_def split: option.splits)

lemma ops_scheduleRoomCleanup:
  "disconnectOps (scheduleRoomCleanup sg k b) = disconnectOps sg @
     (if b \<and> \<not> armed sg k then [RemoveOnDisconnect [''rooms'', tmpl k]]
      else if \<not> b \<and> armed sg k then [CancelOnDisconnect [''rooms'', tmpl k]] else [])"
  by (auto simp: scheduleRoomCleanup_def armed_def Let_def split: option.splits)

lemma sole_test: "(length ms = 1 \<and> Some (hd ms) = peerId s) = (\<exists>p. peerId s = Some p \<and> ms = [p])"
  by (cases ms) auto

lemma client_part_onMembers:
  "client_part (signaling (onMembers s ms))
     = client_part (scheduleRoomCleanup (signaling s) (roomId s) (\<exists>p. peerId s = Some p \<and> ms = [p]))"
  unfolding onMembers_def Let_def sole_test by simp

lemma distinct_singleton: "distinct ms \<Longrightarrow> (set ms = {p}) = (ms = [p])"
proof
  assume d: "distinct ms" and e: "set ms = {p}"
  then obtain x xs where ms: "ms = x # xs" by (cases ms) auto
  with e have x: "x = p" and sub: "set xs \<subseteq> {p}" by auto
  from d ms x have "p \<notin> set xs" by simp
  with sub have "xs = []" by (cases xs) auto
  with ms x show "ms = [p]" by simp
qed simp

text \<open>
  C5. After the membership handler has processed a notification, the cleanup flag of the
  manager's room is set if and only if the reported members are the local peer alone
  (as a list, and, the keys of an object being distinct, as a set); the deferred removal of
  the room is requested when the flag goes up and cancelled when it goes down, so it is
  cancelled by the first notification that reports another member.
\<close>

theorem cleanup_armed_iff_sole:
  "armed (signaling (onMembers s ms)) (roomId s) = (\<exists>p. peerId s = Some p \<and> ms = [p])
   \<and> (distinct ms \<longrightarrow>
        armed (signaling (onMembers s ms)) (roomId s) = (\<exists>p. peerId s = Some p \<and> set ms = {p}))
   \<and> disconnectOps (signaling (onMembers s ms)) = disconnectOps (signaling s) @
        (if (\<exists>p. peerId s = Some p \<and> ms = [p]) \<and> \<not> armed (signaling s) (roomId s)
           then [RemoveOnDisconnect [''rooms'', tmpl (roomId s)]]
         else if \<not> (\<exists>p. peerId s = Some p \<and> ms = [p]) \<and> armed (signaling s) (roomId s)
           then [CancelOnDisconnect [''rooms'', tmpl (roomId s)]]
         else [])"
proof -
  let ?b = "\<exists>p. peerId s = Some p \<and> ms = [p]"
  have cp: "client_part (signaling (onMembers s ms))
              = client_part (scheduleRoomCleanup (signaling s) (roomId s) ?b)"
    by (rule client_part_onMembers)
  have 1: "armed (signaling (onMembers s ms)) (roomId s) = ?b"
    using armed_client_part [OF cp] by (simp only: armed_scheduleRoomCleanup)
  have 2: "distinct ms \<longrightarrow>
        armed (signaling (onMembers s ms)) (roomId s) = (\<exists>p. peerId s = Some p \<and> set ms = {p})"
    unfolding 1 by (auto simp: distinct_singleton)
  have "disconnectOps (signaling (onMembers s ms))
             = disconnectOps (scheduleRoomCleanup (signaling s) (roomId s) ?b)"
    using cp by (simp add: client_part_def)
  then have 3: "disconnectOps (signaling (onMembers s ms)) = disconnectOps (signaling s) @
        (if ?b \<and> \<not> armed (signaling s) (roomId s)
           then [RemoveOnDisconnect [''rooms'', tmpl (roomId s)]]
         else if \<not> ?b \<and> armed (signaling s) (roomId s)
           then [CancelOnDisconnect [''rooms'', tmpl (roomId s)]]
         else [])"
    by (simp only: ops_scheduleRoomCleanup)
  from 1 2 3 show ?thesis by (intro conjI)
qed

theorem cleanup_armed_iff_sole_witness:
  "distinct [''peer-bbbbbbbb''] \<and> distinct [''peer-aaaaaaaa'', ''peer-bbbbbbbb'']
   \<and> armed (signaling (onMembers manager_b [''peer-bbbbbbbb''])) (Some ''r1'')
   \<and> \<not> armed (signaling (onMembers manager_b [''peer-aaaaaaaa'', ''peer-bbbbbbbb''])) (Some ''r1'')
   \<and> disconnectOps (signaling (onMembers manager_b [''peer-bbbbbbbb'']))
       = [RemoveOnDisconnect [''rooms'', ''r1'', ''members'', ''peer-bbbbbbbb''],
          RemoveOnDisconnect [''rooms'', ''r1'']]
   \<and> disconnectOps (signaling (onMembers (onMembers manager_b [''peer-bbbbbbbb''])
                                   [''peer-aaaaaaaa'', ''peer-bbbbbbbb'']))
       = [RemoveOnDisconnect [''rooms'', ''r1'', ''members'', ''peer-bbbbbbbb''],
          RemoveOnDisconnect [''rooms'', ''r1''], CancelOnDisconnect [''rooms'', ''r1'']]"
proof -
  let ?s1 = "onMembers manager_b [''peer-bbbbbbbb'']"
  have f: "peerId manager_b = Some ''peer-bbbbbbbb''" "roomId manager_b = Some ''r1''"
    by (simp_all add: manager_b_fields)
  have n: "\<not> armed (signaling manager_b) (Some ''r1'')"
    and o: "disconnectOps (signaling manager_b)
              = [RemoveOnDisconnect [''rooms'', ''r1'', ''members'', ''peer-bbbbbbbb'']]"
    using manager_b_fields(5) by (simp_all add: client_part_def armed_def)
  have f1: "peerId ?s1 = Some ''peer-bbbbbbbb''" "roomId ?s1 = Some ''r1''"
    by (simp_all add: onMembers_def Let_def teardown_all_def teardown_begin_def manager_b_fields
          link_b_def teardown_finish_def)
  from cleanup_armed_iff_sole [of manager_b "[''peer-bbbbbbbb'']"]
  have 1: "armed (signaling ?s1) (Some ''r1'')"
    and 2: "disconnectOps (signaling ?s1)
              = [RemoveOnDisconnect [''rooms'', ''r1'', ''members'', ''peer-bbbbbbbb''],
                 RemoveOnDisconnect [''rooms'', ''r1'']]"
    by (simp_all add: f n o tmpl_def)
  from cleanup_armed_iff_sole [of manager_b "[''peer-aaaaaaaa'', ''peer-bbbbbbbb'']"]
  have 3: "\<not> armed (signaling (onMembers manager_b [''peer-aaaaaaaa'', ''peer-bbbbbbbb''])) (Some ''r1'')"
    by (simp add: f)
  from cleanup_armed_iff_sole [of ?s1 "[''peer-aaaaaaaa'', ''peer-bbbbbbbb'']"]
  have 4: "disconnectOps (signaling (onMembers ?s1 [''peer-aaaaaaaa'', ''peer-bbbbbbbb'']))
             = [RemoveOnDisconnect [''rooms'', ''r1'', ''members'', ''peer-bbbbbbbb''],
                RemoveOnDisconnect [''rooms'', ''r1''], CancelOnDisconnect [''rooms'', ''r1'']]"
    by (simp add: f1 1 2 tmpl_def)
  from 1 2 3 4 show ?thesis by simp
qed

section \<open>Candidates\<close>












section \<open>The pair key across the two peers\<close>

lemma createConnection_initiator:
  "map_of (connections s) remote = None \<Longrightarrow>
   createConnection s remote True None desc ts =
     (let k = buildOfferId (tmpl (peerId s)) remote;
          c = \<lparr>remotePeerId = remote, offerId = k, initiator = True,
               candidateSubscriptions = [IceSub (tmpl (roomId s)) k ''callee''],
               answerSubscription = Some (AnswersSub (tmpl (roomId s)) k), closing = False\<rparr>
      in (s\<lparr>signaling := postOffer (signaling s) (tmpl (roomId s)) k (tmpl (peerId s)) remote desc ts,
            connections := AList.update remote c (connections s)\<rparr>, c))"
  by (simp add: createConnection_def handleInitiatorFlow_def Let_def)

lemma postOffer_lookup:
  "map_of (offer (db (postOffer sg r k a b desc ts) r)) k
     = Some \<lparr>sig_from = a, sig_to = b, description = desc, sig_createdAt = ts\<rparr>"
  by (simp add: postOffer_def Let_def update_conv')

lemma handleOffer_key:
  "\<exists>c. map_of (connections (handleOffer s (k, sg) desc ts)) (sig_from sg) = Some c \<and> offerId c = k
        \<and> remotePeerId c = (if map_of (connections s) (sig_from sg) = None then sig_from sg
                             else remotePeerId (the (map_of (connections s) (sig_from sg))))"
  by (auto simp: handleOffer_def createConnection_def Let_def update_conv' split: option.splits)

text \<open>
  C4. On identifiers of the form \<open>peer-\<close> plus eight hexadecimal digits \<open>buildOfferId\<close> is
  injective in the pair. The initiator stores its offer under \<open>buildOfferId\<close> of its own
  id and the remote id, with these two as the record's \<open>from\<close> and \<open>to\<close>; the offers listener
  of the addressee passes that child on with the key as \<open>id\<close>; and the responder's
  connection for the sender takes this \<open>id\<close> as its key, which therefore equals the key
  the initiator computed, and \<open>buildOfferId\<close> of the record's \<open>from\<close> and \<open>to\<close>.
\<close>

theorem pair_key_agreement:
  "(peer_id_format a \<and> peer_id_format b \<and> peer_id_format a' \<and> peer_id_format b'
      \<and> buildOfferId a b = buildOfferId a' b' \<longrightarrow> a = a' \<and> b = b')
   \<and> (peerId sA = Some a \<and> map_of (connections sA) b = None \<longrightarrow>
          offerId (snd (createConnection sA b True None desc ts)) = buildOfferId a b
        \<and> map_of (offer (db (signaling (fst (createConnection sA b True None desc ts))) (tmpl (roomId sA))))
             (buildOfferId a b)
            = Some \<lparr>sig_from = a, sig_to = b, description = desc, sig_createdAt = ts\<rparr>
        \<and> map_option offerId (map_of (connections (handleOffer sB
              (buildOfferId a b, \<lparr>sig_from = a, sig_to = b, description = desc, sig_createdAt = ts\<rparr>)
              desc' ts')) a)
            = Some (offerId (snd (createConnection sA b True None desc ts))))
   \<and> offersListener (sig_to sg) (k, sg) = Some (k, sg)
   \<and> map_option offerId (map_of (connections (handleOffer sB (k, sg) desc' ts')) (sig_from sg)) = Some k"
proof -
  have 1: "a = a' \<and> b = b'"
    if "peer_id_format a \<and> peer_id_format b \<and> peer_id_format a' \<and> peer_id_format b'
        \<and> buildOfferId a b = buildOfferId a' b'"
    using that buildOfferId_inj by blast
  have 4: "map_option offerId (map_of (connections (handleOffer sB (k, sg) desc' ts')) (sig_from sg)) = Some k"
    for k sg
    using handleOffer_key [of sB k sg desc' ts'] by auto
  have 2: "offerId (snd (createConnection sA b True None desc ts)) = buildOfferId a b
        \<and> map_of (offer (db (signaling (fst (createConnection sA b True None desc ts))) (tmpl (roomId sA))))
             (buildOfferId a b)
            = Some \<lparr>sig_from = a, sig_to = b, description = desc, sig_createdAt = ts\<rparr>
        \<and> map_option offerId (map_of (connections (handleOffer sB
              (buildOfferId a b, \<lparr>sig_from = a, sig_to = b, description = desc, sig_createdAt = ts\<rparr>)
              desc' ts')) a)
            = Some (offerId (snd (createConnection sA b True None desc ts)))"
    if p: "peerId sA = Some a" and n: "map_of (connections sA) b = None"
  proof -
    let ?sg = "\<lparr>sig_from = a, sig_to = b, description = desc, sig_createdAt = ts\<rparr>"
    have t: "tmpl (peerId sA) = a" using p by (simp add: tmpl_def)
    have k: "offerId (snd (createConnection sA b True None desc ts)) = buildOfferId a b"
      by (simp add: createConnection_initiator [OF n] Let_def t)
    have o: "map_of (offer (db (signaling (fst (createConnection sA b True None desc ts))) (tmpl (roomId sA))))
               (buildOfferId a b) = Some ?sg"
      by (simp add: createConnection_initiator [OF n] Let_def t postOffer_lookup)
    from 4 [of "buildOfferId a b" ?sg] k o show ?thesis by simp
  qed
  have 3: "offersListener (sig_to sg) (k, sg) = Some (k, sg)"
    by (simp add: offersListener_def)
  from 1 2 3 4 show ?thesis by blast
qed

theorem pair_key_agreement_witness:
  "peer_id_format ''peer-aaaaaaaa'' \<and> peer_id_format ''peer-bbbbbbbb''
   \<and> peerId manager_a = Some ''peer-aaaaaaaa''
   \<and> map_of (connections manager_a) ''peer-bbbbbbbb'' = None
   \<and> offerId (snd (createConnection manager_a ''peer-bbbbbbbb'' True None ''sdp-a'' 12))
       = ''peer-aaaaaaaa__peer-bbbbbbbb''
   \<and> map_option offerId (map_of (connections (handleOffer manager_b
          (''peer-aaaaaaaa__peer-bbbbbbbb'',
           \<lparr>sig_from = ''peer-aaaaaaaa'', sig_to = ''peer-bbbbbbbb'', description = ''sdp-a'',
              sig_createdAt = 12\<rparr>) ''sdp-b'' 13)) ''peer-aaaaaaaa'')
       = Some ''peer-aaaaaaaa__peer-bbbbbbbb''"
proof -
  have f: "peer_id_format ''peer-aaaaaaaa'' \<and> peer_id_format ''peer-bbbbbbbb''"
    by (simp add: peer_id_format_def hexdigits_def)
  have h: "peerId manager_a = Some ''peer-aaaaaaaa'' \<and> map_of (connections manager_a) ''peer-bbbbbbbb'' = None"
    by (simp add: manager_a_eq)
  have k: "buildOfferId ''peer-aaaaaaaa'' ''peer-bbbbbbbb'' = ''peer-aaaaaaaa__peer-bbbbbbbb''"
    using f by (simp add: buildOfferId_peer_ids)
  note pk = pair_key_agreement [of "''peer-aaaaaaaa''" "''peer-bbbbbbbb''" "''peer-aaaaaaaa''" "''peer-bbbbbbbb''"
      manager_a "''sdp-a''" 12 manager_b "''sdp-b''" 13, THEN conjunct2, THEN conjunct1, THEN mp, OF h]
  from pk [THEN conjunct1] pk [THEN conjunct2, THEN conjunct2] f h
  show ?thesis unfolding k by (intro conjI) simp_all
qed

end
